theory Spec2Isabelle
  imports Complex_Main
begin

section \<open>JavaScript values used by the hooks and components\<close>

text \<open>
  JavaScript numbers are modelled as \<open>int\<close> where the code handles item numbers, points and
  counts, and as \<open>real\<close> where it handles scores that are only compared with a threshold
  (the comparison of two finite doubles agrees with the comparison of the reals they denote).
  A value thrown inside a \<^verbatim>\<open>try\<close> block is either an \<^verbatim>\<open>Error\<close> instance carrying a message
  or some other value; the \<^verbatim>\<open>catch\<close> blocks of the hooks tell the two apart with
  \<^verbatim>\<open>error instanceof Error ? error.message : fallback\<close>.
\<close>

datatype thrown = ErrorInstance string | OtherValue

definition error_message :: "string \<Rightarrow> thrown \<Rightarrow> string" where
  "error_message fallback e = (case e of ErrorInstance m \<Rightarrow> m | OtherValue \<Rightarrow> fallback)"

definition digit_char :: "nat \<Rightarrow> char" where
  "digit_char d = ''0123456789'' ! d"

fun nat_toString :: "nat \<Rightarrow> string" where
  "nat_toString n =
     (if n < 10 then [digit_char n]
      else nat_toString (n div 10) @ [digit_char (n mod 10)])"

declare nat_toString.simps [simp del]

text \<open>
  \<^verbatim>\<open>Number.prototype.toString\<close> on an integer: decimal digits, with a leading minus sign
  (the form JavaScript prints for every integer of magnitude below \<open>10\<^sup>2\<^sup>1\<close>).
\<close>

definition toString :: "int \<Rightarrow> string" where
  "toString i = (if i < 0 then CHR ''-'' # nat_toString (nat (- i)) else nat_toString (nat i))"

text \<open>\<^verbatim>\<open>Array.prototype.join\<close> on an array of strings.\<close>

fun join :: "string \<Rightarrow> string list \<Rightarrow> string" where
  "join sep [] = []"
| "join sep [g] = g"
| "join sep (g # h # gs) = g @ sep @ join sep (h # gs)"


section \<open>The TOS matrix component\<close>

subsection \<open>formatItemNumbers\<close>

text \<open>
  The text pushed for one group: \<^verbatim>\<open>start === end ? start.toString() : `${start}-${end}`\<close>.
\<close>

definition group_text :: "int \<Rightarrow> int \<Rightarrow> string" where
  "group_text start end' =
     (if start = end' then toString start else toString start @ ''-'' @ toString end')"

text \<open>
  The \<^verbatim>\<open>for\<close> loop over \<^verbatim>\<open>items[1..]\<close>, with its three variables \<^verbatim>\<open>groups\<close>, \<^verbatim>\<open>start\<close> and
  \<^verbatim>\<open>end\<close>; the last equation is the push after the loop.
\<close>

fun group_loop :: "string list \<Rightarrow> int \<Rightarrow> int \<Rightarrow> int list \<Rightarrow> string list" where
  "group_loop groups start end' [] = groups @ [group_text start end']"
| "group_loop groups start end' (x # xs) =
     (if x = end' + 1 then group_loop groups start x xs
      else group_loop (groups @ [group_text start end']) x x xs)"

fun formatItemNumbers :: "int list \<Rightarrow> string" where
  "formatItemNumbers [] = ''-''"
| "formatItemNumbers [x] = toString x"
| "formatItemNumbers (x # y # ys) = ''('' @ join '', '' (group_loop [] x x (y # ys)) @ '')''"

subsection \<open>The display form, as the specification words it\<close>

text \<open>
  A run is a non-empty list \<open>a, a + 1, ..., b\<close>. A decomposition of the item list into runs is
  maximal when no run can be extended by the first element of the next one. A run of one
  number is an isolated number and is shown as itself; a longer run is shown as \<open>a-b\<close>.
\<close>

definition consecutive_run :: "int list \<Rightarrow> bool" where
  "consecutive_run r \<longleftrightarrow> r \<noteq> [] \<and> r = [hd r..last r]"

fun maximal_runs :: "int list list \<Rightarrow> bool" where
  "maximal_runs (r # s # rs) = (hd s \<noteq> last r + 1 \<and> maximal_runs (s # rs))"
| "maximal_runs rs = True"

definition run_decomposition :: "int list \<Rightarrow> int list list \<Rightarrow> bool" where
  "run_decomposition items rs \<longleftrightarrow>
     concat rs = items \<and> list_all consecutive_run rs \<and> maximal_runs rs"

definition run_text :: "int list \<Rightarrow> string" where
  "run_text r =
     (if hd r < last r then toString (hd r) @ ''-'' @ toString (last r) else toString (hd r))"

text \<open>The runs of \<open>[a..b] @ xs\<close>, where \<open>[a..b]\<close> is the run read so far.\<close>

fun split_runs :: "int \<Rightarrow> int \<Rightarrow> int list \<Rightarrow> int list list" where
  "split_runs a b [] = [[a..b]]"
| "split_runs a b (x # xs) =
     (if x = b + 1 then split_runs a x xs else [a..b] # split_runs x x xs)"

subsection \<open>Totals of the distribution matrix\<close>

datatype bloom_key =
  Remembering | Understanding | Applying | Analyzing | Evaluating | Creating

text \<open>
  One topic's entry of \<^verbatim>\<open>data.distribution\<close>: a list of item numbers per Bloom level, and the
  topic's stored total.
\<close>

record topic_row =
  remembering :: "int list"
  understanding :: "int list"
  applying :: "int list"
  analyzing :: "int list"
  evaluating :: "int list"
  creating :: "int list"
  row_total :: int

text \<open>The property access \<^verbatim>\<open>topic[level.key]\<close>.\<close>

fun cell :: "topic_row \<Rightarrow> bloom_key \<Rightarrow> int list" where
  "cell topic Remembering = remembering topic"
| "cell topic Understanding = understanding topic"
| "cell topic Applying = applying topic"
| "cell topic Analyzing = analyzing topic"
| "cell topic Evaluating = evaluating topic"
| "cell topic Creating = creating topic"

definition bloomLevels :: "bloom_key list" where
  "bloomLevels = [Remembering, Understanding, Applying, Analyzing, Evaluating, Creating]"

text \<open>
  The fields of \<^verbatim>\<open>TOSData\<close> that the totals read: the distribution object (topic name to
  topic entry, in insertion order) and the configured number of items.
\<close>

record tos_data =
  distribution :: "(string \<times> topic_row) list"
  totalItems :: nat

text \<open>
  \<^verbatim>\<open>bloomTotals\<close> is built by a \<^verbatim>\<open>reduce\<close> over the six levels, each entry by a \<^verbatim>\<open>reduce\<close> over
  \<^verbatim>\<open>Object.values(data.distribution)\<close>; \<^verbatim>\<open>grandTotal\<close> is a \<^verbatim>\<open>reduce\<close> over its values.
\<close>

definition bloomTotals :: "tos_data \<Rightarrow> (bloom_key \<times> nat) list" where
  "bloomTotals data =
     map (\<lambda>level. (level,
            foldl (\<lambda>sum topic. sum + length (cell topic level)) 0 (map snd (distribution data))))
         bloomLevels"

definition grandTotal :: "tos_data \<Rightarrow> nat" where
  "grandTotal data = foldl (\<lambda>sum count. sum + count) 0 (map snd (bloomTotals data))"

text \<open>
  Modelled from the spec: the TOS builder that fills \<^verbatim>\<open>data.distribution\<close> and the check it
  makes when a blueprint is saved. The specification's invariant for a valid configuration is
  that the item numbers of all cells together are exactly \<open>1..total_items\<close>, with no gaps and
  no overlaps.
\<close>

definition all_item_numbers :: "tos_data \<Rightarrow> int list" where
  "all_item_numbers data =
     concat (map (\<lambda>(name, topic). concat (map (cell topic) bloomLevels)) (distribution data))"

definition valid_tos :: "tos_data \<Rightarrow> bool" where
  "valid_tos data \<longleftrightarrow>
     distinct (all_item_numbers data) \<and>
     set (all_item_numbers data) = {1..int (totalItems data)}"


section \<open>The test preview page\<close>

subsection \<open>Total points\<close>

text \<open>Of a test item only the optional \<^verbatim>\<open>points\<close> field matters for the total.\<close>

record test_item =
  points :: "int option"

text \<open>
  \<^verbatim>\<open>item.points || 1\<close>: an absent field and the number zero are both falsy, so both give one.
\<close>

definition points_or_one :: "test_item \<Rightarrow> int" where
  "points_or_one item = (case points item of None \<Rightarrow> 1 | Some p \<Rightarrow> if p = 0 then 1 else p)"

text \<open>\<^verbatim>\<open>Array.isArray(test.items) ? test.items : []\<close>, with \<open>None\<close> for a value that is no array.\<close>

definition items_of :: "test_item list option \<Rightarrow> test_item list" where
  "items_of test_items = (case test_items of Some its \<Rightarrow> its | None \<Rightarrow> [])"

definition totalPoints :: "test_item list \<Rightarrow> int" where
  "totalPoints items = foldl (\<lambda>sum item. sum + points_or_one item) 0 items"

subsection \<open>Printing\<close>

text \<open>
  The blocks of the page, in document order. The toolbar and the answer key (with its
  separator) carry the class \<^verbatim>\<open>print:hidden\<close>; the answer key is rendered only while
  \<^verbatim>\<open>showAnswerKey\<close> holds.
\<close>

datatype preview_block =
  Toolbar | TestHeader | GeneralInstructions | QuestionSections
  | AnswerKeySeparator | AnswerKey | Footer

definition render :: "bool \<Rightarrow> (preview_block \<times> bool) list" where
  "render showKey =
     [(Toolbar, True), (TestHeader, False), (GeneralInstructions, False),
      (QuestionSections, False)]
     @ (if showKey then [(AnswerKeySeparator, True), (AnswerKey, True)] else [])
     @ [(Footer, False)]"

definition printed_content :: "bool \<Rightarrow> preview_block list" where
  "printed_content showKey = map fst (filter (\<lambda>(b, print_hidden). \<not> print_hidden) (render showKey))"

text \<open>
  The component's toggle, and the log of what \<^verbatim>\<open>window.print()\<close> has put on paper.
  \<^verbatim>\<open>handlePrint\<close> runs in two parts: the click handler itself, and the callback that
  \<^verbatim>\<open>setTimeout\<close> runs after the page has been rendered again.
\<close>

record preview_state =
  showAnswerKey :: bool
  print_jobs :: "preview_block list list"

definition setShowAnswerKey :: "bool \<Rightarrow> preview_state \<Rightarrow> preview_state" where
  "setShowAnswerKey b st = st\<lparr>showAnswerKey := b\<rparr>"

definition window_print :: "preview_state \<Rightarrow> preview_state" where
  "window_print st = st\<lparr>print_jobs := print_jobs st @ [printed_content (showAnswerKey st)]\<rparr>"

definition toggleAnswerKey :: "preview_state \<Rightarrow> preview_state" where
  "toggleAnswerKey st = setShowAnswerKey (\<not> showAnswerKey st) st"

definition handlePrint_click :: "preview_state \<Rightarrow> preview_state" where
  "handlePrint_click st = setShowAnswerKey False st"

definition handlePrint_timeout :: "preview_state \<Rightarrow> preview_state" where
  "handlePrint_timeout st = setShowAnswerKey True (window_print st)"

definition handlePrint :: "preview_state \<Rightarrow> preview_state" where
  "handlePrint st = handlePrint_timeout (handlePrint_click st)"


section \<open>The classification validation hook\<close>

subsection \<open>Tables\<close>

text \<open>
  The hook works on three tables of the hosted store. A row of \<^verbatim>\<open>questions\<close> is found by its
  primary key, so the table is a map from ids to rows; the other two tables are lists of rows
  in insertion order. The store reports a failed statement in the \<^verbatim>\<open>error\<close> field of its
  answer and does not throw; the hook reads that field only after the \<^verbatim>\<open>select\<close>. The
  model is of a store that carries out every statement it is sent.
\<close>

record classification_snapshot =
  bloom_level :: string
  knowledge_dimension :: string
  difficulty :: string
  confidence :: real

record validated_classification =
  vc_bloom_level :: string
  vc_knowledge_dimension :: string
  vc_difficulty :: string

record validation_result =
  res_validated_classification :: validated_classification
  res_validation_confidence :: real
  res_notes :: "string option"
  changes_made :: "string list"

record question_row =
  question_text :: string
  q_bloom_level :: string
  q_knowledge_dimension :: string
  q_difficulty :: string
  classification_confidence :: real
  validation_status :: string
  validated_by :: "string option"
  validation_timestamp :: "string option"
  needs_review :: bool

text \<open>
  A row of \<^verbatim>\<open>classification_validations\<close>. The two classification columns hold JSON: a
  classification object, or the empty object \<^verbatim>\<open>{}\<close> (here \<open>None\<close>) that a rejection logs.
\<close>

record validation_row =
  val_question_id :: string
  original_classification :: "classification_snapshot option"
  val_validated_classification :: "validated_classification option"
  validator_id :: string
  validation_confidence :: real
  val_notes :: "string option"

datatype request_type = Peer_review | Expert_review

datatype request_status = Pending | In_progress | Completed | Cancelled

record review_request =
  rr_id :: string
  rr_question_id :: string
  rr_request_type :: request_type
  requested_by :: string
  assigned_to :: "string option"
  rr_status :: request_status

record store =
  questions :: "string \<rightharpoonup> question_row"
  classification_validations :: "validation_row list"
  review_requests :: "review_request list"

datatype error = UserNotAuthenticated | QuestionQueryFailed

subsection \<open>Statements\<close>

text \<open>\<^verbatim>\<open>from('questions').update(...).eq('id', questionId)\<close>: no row, no change.\<close>

definition update_question ::
  "string \<Rightarrow> (question_row \<Rightarrow> question_row) \<Rightarrow> store \<Rightarrow> store" where
  "update_question questionId change db =
     (case questions db questionId of
        None \<Rightarrow> db
      | Some q \<Rightarrow> db\<lparr>questions := (questions db)(questionId \<mapsto> change q)\<rparr>)"

definition insert_validation :: "validation_row \<Rightarrow> store \<Rightarrow> store" where
  "insert_validation row db =
     db\<lparr>classification_validations := classification_validations db @ [row]\<rparr>"

text \<open>
  \<^verbatim>\<open>from('review_requests').update({ status: 'completed' }).eq('question_id', questionId)
  .eq('assigned_to', user.id)\<close>.
\<close>

definition complete_requests :: "string \<Rightarrow> string \<Rightarrow> store \<Rightarrow> store" where
  "complete_requests questionId uid db =
     db\<lparr>review_requests :=
          map (\<lambda>r. if rr_question_id r = questionId \<and> assigned_to r = Some uid
                    then r\<lparr>rr_status := Completed\<rparr> else r)
              (review_requests db)\<rparr>"

subsection \<open>submitValidation and rejectValidation\<close>

text \<open>
  The signed-in user (\<open>None\<close> when there is none) and the clock reading of
  \<^verbatim>\<open>new Date().toISOString()\<close> are arguments. A thrown error is the left summand. The
  refresh of the hook's own lists at the end reads the store and does not write to it.
\<close>

definition original_of :: "question_row \<Rightarrow> classification_snapshot" where
  "original_of question =
     \<lparr>bloom_level = q_bloom_level question,
      knowledge_dimension = q_knowledge_dimension question,
      difficulty = q_difficulty question,
      confidence = classification_confidence question\<rparr>"

definition submitValidation ::
  "string option \<Rightarrow> string \<Rightarrow> string \<Rightarrow> validation_result \<Rightarrow> store \<Rightarrow> error + store" where
  "submitValidation user now questionId validationResult db =
     (case user of
        None \<Rightarrow> Inl UserNotAuthenticated
      | Some uid \<Rightarrow>
          (case questions db questionId of
             None \<Rightarrow> Inl QuestionQueryFailed
           | Some question \<Rightarrow>
               let originalClassification = original_of question;
                   validated = res_validated_classification validationResult;
                   db1 = insert_validation
                           \<lparr>val_question_id = questionId,
                            original_classification = Some originalClassification,
                            val_validated_classification = Some validated,
                            validator_id = uid,
                            validation_confidence = res_validation_confidence validationResult,
                            val_notes = res_notes validationResult\<rparr> db;
                   db2 = update_question questionId
                           (\<lambda>q. q\<lparr>q_bloom_level := vc_bloom_level validated,
                                  q_knowledge_dimension := vc_knowledge_dimension validated,
                                  q_difficulty := vc_difficulty validated,
                                  validation_status := ''validated'',
                                  validated_by := Some uid,
                                  validation_timestamp := Some now,
                                  classification_confidence :=
                                    res_validation_confidence validationResult\<rparr>) db1;
                   db3 = complete_requests questionId uid db2
               in Inr db3))"

definition rejectValidation ::
  "string option \<Rightarrow> string \<Rightarrow> string \<Rightarrow> string \<Rightarrow> store \<Rightarrow> error + store" where
  "rejectValidation user now questionId reason db =
     (case user of
        None \<Rightarrow> Inl UserNotAuthenticated
      | Some uid \<Rightarrow>
          let db1 = update_question questionId
                      (\<lambda>q. q\<lparr>validation_status := ''rejected'',
                             validated_by := Some uid,
                             validation_timestamp := Some now,
                             needs_review := True\<rparr>) db;
              db2 = insert_validation
                      \<lparr>val_question_id = questionId,
                       original_classification = None,
                       val_validated_classification = None,
                       validator_id = uid,
                       validation_confidence = 0,
                       val_notes = Some (''Rejected: '' @ reason)\<rparr> db1
          in Inr db2)"


section \<open>The enhanced classification hook\<close>

text \<open>
  The fields of \<^verbatim>\<open>QuestionInput\<close> and \<^verbatim>\<open>MLClassificationResult\<close> that the hook reads.
\<close>

record question_input =
  input_text :: string

record ml_classification_result =
  ml_bloom_level :: string
  ml_knowledge_dimension :: string
  ml_difficulty :: string
  ml_confidence :: real
  quality_score :: real
  readability_score :: real
  ml_needs_review :: bool

record similarity_result =
  questionId1 :: string
  questionId2 :: string
  similarity :: real
  algorithm :: string

record similar_question =
  sq_id :: string
  sq_text :: string
  sq_similarity :: real

text \<open>
  The hook's state type lists three statuses; \<^verbatim>\<open>classifyQuestion\<close> stores a fourth,
  \<^verbatim>\<open>'needs_review'\<close>.
\<close>

datatype validation_state = St_pending | St_validated | St_rejected | St_needs_review

record classification_state =
  cs_result :: "ml_classification_result option"
  cs_loading :: bool
  cs_error :: "string option"
  similarQuestions :: "similar_question list"
  validationStatus :: validation_state
  qualityIssues :: "string list"

definition default_similarityThreshold :: real where
  "default_similarityThreshold = 0.7"

definition default_qualityThreshold :: real where
  "default_qualityThreshold = 0.6"

text \<open>Step 2 of \<^verbatim>\<open>classifyQuestion\<close>: the three quality checks, in order.\<close>

definition quality_assessment :: "real \<Rightarrow> ml_classification_result \<Rightarrow> string list" where
  "quality_assessment qualityThreshold classification =
     (if quality_score classification < qualityThreshold
      then [''Question quality below threshold''] else [])
     @ (if readability_score classification > 12
        then [''Question may be too complex for target audience''] else [])
     @ (if ml_confidence classification < 0.7
        then [''Low classification confidence - needs human review''] else [])"

text \<open>
  Step 3: the first five hits of the similarity search, each with the text of the question
  it names (\<^verbatim>\<open>data?.question_text || ''\<close>: the empty string when the row or its text is
  missing or empty).
\<close>

definition similar_of :: "(string \<Rightarrow> string option) \<Rightarrow> similarity_result \<Rightarrow> similar_question" where
  "similar_of question_text_of sim =
     \<lparr>sq_id = questionId2 sim,
      sq_text = (case question_text_of (questionId2 sim) of None \<Rightarrow> [] | Some t \<Rightarrow> t),
      sq_similarity = similarity sim\<rparr>"

definition similarity_check ::
  "bool \<Rightarrow> real \<Rightarrow> (string \<Rightarrow> real \<Rightarrow> thrown + similarity_result list) \<Rightarrow>
   (string \<Rightarrow> string option) \<Rightarrow> question_input \<Rightarrow> thrown + similar_question list" where
  "similarity_check checkSimilarity similarityThreshold findSimilar question_text_of questionInput =
     (if checkSimilarity then
        (case findSimilar (input_text questionInput) similarityThreshold of
           Inl e \<Rightarrow> Inl e
         | Inr similarities \<Rightarrow> Inr (map (similar_of question_text_of) (take 5 similarities)))
      else Inr [])"

text \<open>
  \<^verbatim>\<open>classifyQuestion\<close>, from the state before the call to the state after it. The arguments
  before the state are what the hook closes over (\<^verbatim>\<open>checkSimilarity\<close>, the two thresholds)
  and the services it awaits: the classifier, the similarity search and the lookup of a
  question's text. The last step, \<^verbatim>\<open>storeClassificationResult\<close>, runs after the state is
  written and catches whatever it throws, so it changes neither the state nor the outcome.
\<close>

definition classification_failed :: "thrown \<Rightarrow> classification_state \<Rightarrow> classification_state" where
  "classification_failed e prev =
     prev\<lparr>cs_loading := False, cs_error := Some (error_message ''Classification failed'' e)\<rparr>"

definition classifyQuestion ::
  "bool \<Rightarrow> real \<Rightarrow> real \<Rightarrow>
   (question_input \<Rightarrow> thrown + ml_classification_result) \<Rightarrow>
   (string \<Rightarrow> real \<Rightarrow> thrown + similarity_result list) \<Rightarrow>
   (string \<Rightarrow> string option) \<Rightarrow>
   question_input \<Rightarrow> classification_state \<Rightarrow> classification_state" where
  "classifyQuestion checkSimilarity similarityThreshold qualityThreshold
     classifier findSimilar question_text_of questionInput st =
     (let st1 = st\<lparr>cs_loading := True, cs_error := None\<rparr> in
      case classifier questionInput of
        Inl e \<Rightarrow> classification_failed e st1
      | Inr classification \<Rightarrow>
          let issues = quality_assessment qualityThreshold classification in
          (case similarity_check checkSimilarity similarityThreshold findSimilar
                  question_text_of questionInput of
             Inl e \<Rightarrow> classification_failed e st1
           | Inr similar \<Rightarrow>
               let issues' =
                     (if checkSimilarity \<and> length similar > 0
                      then issues @ [''Found '' @ toString (int (length similar))
                                       @ '' similar questions'']
                      else issues);
                   status =
                     (if ml_needs_review classification \<or> length issues' > 0
                      then St_needs_review else St_validated)
               in \<lparr>cs_result = Some classification,
                   cs_loading = False,
                   cs_error = None,
                   similarQuestions = similar,
                   validationStatus = status,
                   qualityIssues = issues'\<rparr>))"


section \<open>The semantic analysis hook\<close>

record cluster_result =
  coherence :: real

record bank_question =
  bq_id :: string
  bq_text :: string
  bq_topic :: string
  bq_bloom_level :: string
  bq_knowledge_dimension :: string

record similar_pair =
  id1 :: string
  id2 :: string
  pair_similarity :: real

record redundancy_report =
  duplicatesFound :: nat
  similarPairs :: "similar_pair list"
  recommendations :: "string list"

record analysis_state =
  similarities :: "similarity_result list"
  clusters :: "cluster_result list"
  sa_loading :: bool
  sa_error :: "string option"
  redundancyReport :: "redundancy_report option"

text \<open>
  \<^verbatim>\<open>clusterQuestions\<close>: returns the clusters and the new state; a failure of the clustering
  service is recorded in the state and yields no clusters.
\<close>

definition clusterQuestions ::
  "bool \<Rightarrow> (bank_question list \<Rightarrow> thrown + cluster_result list) \<Rightarrow>
   bank_question list \<Rightarrow> analysis_state \<Rightarrow> cluster_result list \<times> analysis_state" where
  "clusterQuestions clusteringEnabled cluster_service qs st =
     (if \<not> clusteringEnabled then ([], st)
      else
        let st1 = st\<lparr>sa_loading := True, sa_error := None\<rparr> in
        case cluster_service qs of
          Inr cs \<Rightarrow> (cs, st1\<lparr>clusters := cs, sa_loading := False\<rparr>)
        | Inl e \<Rightarrow> ([], st1\<lparr>sa_loading := False,
                            sa_error := Some (error_message ''Clustering failed'' e)\<rparr>))"

text \<open>
  The nested loops of \<^verbatim>\<open>analyzeQuestionBank\<close>. The accumulator is the pair of
  \<^verbatim>\<open>redundancyPairs\<close> and \<^verbatim>\<open>duplicatesFound\<close>; \<open>inner_loop\<close> runs \<open>j\<close> over the questions after
  question \<open>i\<close>, \<open>outer_loop\<close> runs \<open>i\<close>. A similarity computation that throws ends both loops.
\<close>

fun inner_loop ::
  "(string \<Rightarrow> string \<Rightarrow> thrown + real) \<Rightarrow> real \<Rightarrow> bank_question \<Rightarrow> bank_question list \<Rightarrow>
   similar_pair list \<times> nat \<Rightarrow> thrown + similar_pair list \<times> nat" where
  "inner_loop calculateSimilarity threshold qi [] acc = Inr acc"
| "inner_loop calculateSimilarity threshold qi (qj # rest) acc =
     (case calculateSimilarity (bq_text qi) (bq_text qj) of
        Inl e \<Rightarrow> Inl e
      | Inr s \<Rightarrow>
          inner_loop calculateSimilarity threshold qi rest
            (if s \<ge> threshold
             then (fst acc @ [\<lparr>id1 = bq_id qi, id2 = bq_id qj, pair_similarity = s\<rparr>],
                   snd acc + 1)
             else acc))"

fun outer_loop ::
  "(string \<Rightarrow> string \<Rightarrow> thrown + real) \<Rightarrow> real \<Rightarrow> bank_question list \<Rightarrow>
   similar_pair list \<times> nat \<Rightarrow> thrown + similar_pair list \<times> nat" where
  "outer_loop calculateSimilarity threshold [] acc = Inr acc"
| "outer_loop calculateSimilarity threshold (qi # rest) acc =
     (case inner_loop calculateSimilarity threshold qi rest acc of
        Inl e \<Rightarrow> Inl e
      | Inr acc' \<Rightarrow> outer_loop calculateSimilarity threshold rest acc')"

definition recommendations_for :: "nat \<Rightarrow> cluster_result list \<Rightarrow> string list" where
  "recommendations_for duplicates cs =
     (if duplicates > 0
      then [''Found '' @ toString (int duplicates) @ '' potentially redundant question pairs'',
            ''Review similar questions for consolidation opportunities'']
      else [])
     @ (if length cs > 0 \<and> length (filter (\<lambda>c. coherence c < 0.6) cs) > 0
        then [toString (int (length (filter (\<lambda>c. coherence c < 0.6) cs)))
                @ '' question clusters have low coherence'']
        else [])"

text \<open>
  \<^verbatim>\<open>analyzeQuestionBank\<close>, from the state before the call to the state after it. Storing the
  result afterwards catches its own errors and does not touch the state.
\<close>

definition analyzeQuestionBank ::
  "real \<Rightarrow> bool \<Rightarrow> (bank_question list \<Rightarrow> thrown + cluster_result list) \<Rightarrow>
   (string \<Rightarrow> string \<Rightarrow> thrown + real) \<Rightarrow> bank_question list \<Rightarrow>
   analysis_state \<Rightarrow> analysis_state" where
  "analyzeQuestionBank similarityThreshold clusteringEnabled cluster_service
     calculateSimilarity qs st =
     (let st1 = st\<lparr>sa_loading := True, sa_error := None\<rparr>;
          (cs, st2) = clusterQuestions clusteringEnabled cluster_service qs st1
      in case outer_loop calculateSimilarity similarityThreshold qs ([], 0) of
           Inl e \<Rightarrow> st2\<lparr>sa_loading := False,
                        sa_error := Some (error_message ''Analysis failed'' e)\<rparr>
         | Inr (redundancyPairs, duplicates) \<Rightarrow>
             st2\<lparr>redundancyReport :=
                    Some \<lparr>duplicatesFound = duplicates,
                          similarPairs = redundancyPairs,
                          recommendations = recommendations_for duplicates cs\<rparr>,
                  sa_loading := False\<rparr>)"

text \<open>The pairs that the report of a state flags; none while there is no report.\<close>

definition flagged_pairs :: "analysis_state \<Rightarrow> similar_pair set" where
  "flagged_pairs st =
     (case redundancyReport st of None \<Rightarrow> {} | Some report \<Rightarrow> set (similarPairs report))"

text \<open>
  All pairs \<open>(i, j)\<close> with \<open>i < j\<close> and their similarities, in the order in which the loops
  visit them, without a threshold; the first similarity computation that throws decides.
\<close>

fun inner_pairs ::
  "(string \<Rightarrow> string \<Rightarrow> thrown + real) \<Rightarrow> bank_question \<Rightarrow> bank_question list \<Rightarrow>
   thrown + similar_pair list" where
  "inner_pairs calculateSimilarity qi [] = Inr []"
| "inner_pairs calculateSimilarity qi (qj # rest) =
     (case calculateSimilarity (bq_text qi) (bq_text qj) of
        Inl e \<Rightarrow> Inl e
      | Inr s \<Rightarrow>
          (case inner_pairs calculateSimilarity qi rest of
             Inl e \<Rightarrow> Inl e
           | Inr ps \<Rightarrow> Inr (\<lparr>id1 = bq_id qi, id2 = bq_id qj, pair_similarity = s\<rparr> # ps)))"

fun all_pairs ::
  "(string \<Rightarrow> string \<Rightarrow> thrown + real) \<Rightarrow> bank_question list \<Rightarrow> thrown + similar_pair list" where
  "all_pairs calculateSimilarity [] = Inr []"
| "all_pairs calculateSimilarity (qi # rest) =
     (case inner_pairs calculateSimilarity qi rest of
        Inl e \<Rightarrow> Inl e
      | Inr ps \<Rightarrow>
          (case all_pairs calculateSimilarity rest of
             Inl e \<Rightarrow> Inl e
           | Inr ps' \<Rightarrow> Inr (ps @ ps')))"


section \<open>Example data\<close>

definition example_tos :: tos_data where
  "example_tos =
     \<lparr>distribution =
        [(''Algebra'', \<lparr>remembering = [1, 2], understanding = [], applying = [3],
                       analyzing = [], evaluating = [], creating = [], row_total = 3\<rparr>),
         (''Geometry'', \<lparr>remembering = [], understanding = [4], applying = [],
                        analyzing = [], evaluating = [], creating = [5], row_total = 2\<rparr>)],
      totalItems = 5\<rparr>"

definition example_question :: question_row where
  "example_question =
     \<lparr>question_text = ''Define osmosis.'',
      q_bloom_level = ''remembering'',
      q_knowledge_dimension = ''factual'',
      q_difficulty = ''easy'',
      classification_confidence = 0.55,
      validation_status = ''pending'',
      validated_by = None,
      validation_timestamp = None,
      needs_review = False\<rparr>"

definition example_requests :: "review_request list" where
  "example_requests =
     [\<lparr>rr_id = ''r1'', rr_question_id = ''q1'', rr_request_type = Peer_review,
       requested_by = ''carol'', assigned_to = Some ''alice'', rr_status = Pending\<rparr>,
      \<lparr>rr_id = ''r2'', rr_question_id = ''q1'', rr_request_type = Expert_review,
       requested_by = ''carol'', assigned_to = Some ''bob'', rr_status = Pending\<rparr>]"

definition example_store :: store where
  "example_store =
     \<lparr>questions = [''q1'' \<mapsto> example_question],
      classification_validations = [],
      review_requests = example_requests\<rparr>"

definition example_result :: validation_result where
  "example_result =
     \<lparr>res_validated_classification =
        \<lparr>vc_bloom_level = ''understanding'', vc_knowledge_dimension = ''conceptual'',
         vc_difficulty = ''average''\<rparr>,
      res_validation_confidence = 0.9,
      res_notes = Some ''checked'',
      changes_made = [''bloom_level'']\<rparr>"

definition example_input :: question_input where
  "example_input = \<lparr>input_text = ''Solve 2x + 3 = 7.''\<rparr>"

definition low_confidence_result :: ml_classification_result where
  "low_confidence_result =
     \<lparr>ml_bloom_level = ''applying'', ml_knowledge_dimension = ''procedural'',
      ml_difficulty = ''average'', ml_confidence = 0.65, quality_score = 0.8,
      readability_score = 9, ml_needs_review = False\<rparr>"

definition initial_classification_state :: classification_state where
  "initial_classification_state =
     \<lparr>cs_result = None, cs_loading = False, cs_error = None, similarQuestions = [],
      validationStatus = St_pending, qualityIssues = []\<rparr>"


definition example_bank :: "bank_question list" where
  "example_bank =
     [\<lparr>bq_id = ''q1'', bq_text = ''Define osmosis.'', bq_topic = ''Biology'',
       bq_bloom_level = ''remembering'', bq_knowledge_dimension = ''factual''\<rparr>,
      \<lparr>bq_id = ''q2'', bq_text = ''What is osmosis?'', bq_topic = ''Biology'',
       bq_bloom_level = ''remembering'', bq_knowledge_dimension = ''factual''\<rparr>,
      \<lparr>bq_id = ''q3'', bq_text = ''Explain diffusion.'', bq_topic = ''Biology'',
       bq_bloom_level = ''understanding'', bq_knowledge_dimension = ''conceptual''\<rparr>]"

definition example_similarity :: "string \<Rightarrow> string \<Rightarrow> thrown + real" where
  "example_similarity a b =
     Inr (if a = ''Define osmosis.'' \<and> b = ''What is osmosis?'' then 0.9
          else if b = ''Explain diffusion.'' then 0.6 else 0.1)"

definition initial_analysis_state :: analysis_state where
  "initial_analysis_state =
     \<lparr>similarities = [], clusters = [], sa_loading = False, sa_error = None,
      redundancyReport = None\<rparr>"


section \<open>Properties of formatItemNumbers\<close>

lemma hd_upto: "a \<le> b \<Longrightarrow> hd [a..b] = a"
  by (simp add: upto_rec1)

lemma last_upto: "a \<le> b \<Longrightarrow> last [a..b] = b"
  by (simp add: upto_rec2)

lemma run_text_upto: "a \<le> b \<Longrightarrow> run_text [a..b] = group_text a b"
  by (auto simp: run_text_def group_text_def hd_upto last_upto)

lemma consecutive_run_upto: "a \<le> b \<Longrightarrow> consecutive_run [a..b]"
  by (simp add: consecutive_run_def hd_upto last_upto)

text \<open>The loop pushes one text per run of \<open>split_runs\<close>.\<close>

lemma group_loop_split_runs:
  "a \<le> b \<Longrightarrow> group_loop groups a b xs = groups @ map run_text (split_runs a b xs)"
  by (induction xs arbitrary: groups a b) (simp_all add: run_text_upto)

lemma concat_split_runs: "a \<le> b \<Longrightarrow> concat (split_runs a b xs) = [a..b] @ xs"
proof (induction xs arbitrary: a b)
  case Nil
  then show ?case by simp
next
  case (Cons x xs)
  show ?case
  proof (cases "x = b + 1")
    case True
    with Cons.prems have "[a..x] = [a..b] @ [x]"
      by (simp add: upto_rec2)
    with True Cons.IH [of a x] Cons.prems show ?thesis by simp
  next
    case False
    with Cons.IH [of x x] show ?thesis by simp
  qed
qed

lemma split_runs_all_consecutive: "a \<le> b \<Longrightarrow> list_all consecutive_run (split_runs a b xs)"
  by (induction xs arbitrary: a b) (simp_all add: consecutive_run_upto)

lemma split_runs_first: "a \<le> b \<Longrightarrow> \<exists>r rs. split_runs a b xs = r # rs \<and> hd r = a"
  by (induction xs arbitrary: b) (auto simp: hd_upto)

lemma split_runs_maximal: "a \<le> b \<Longrightarrow> maximal_runs (split_runs a b xs)"
proof (induction xs arbitrary: a b)
  case Nil
  then show ?case by simp
next
  case (Cons x xs)
  show ?case
  proof (cases "x = b + 1")
    case True
    with Cons.IH [of a x] Cons.prems show ?thesis by simp
  next
    case False
    obtain r rs where first: "split_runs x x xs = r # rs" "hd r = x"
      using split_runs_first [of x x xs] by auto
    have "maximal_runs (r # rs)"
      using Cons.IH [of x x] first by simp
    with False first Cons.prems show ?thesis
      by (simp add: last_upto)
  qed
qed

text \<open>In a run, the number after \<open>b\<close> is \<open>b + 1\<close>.\<close>

lemma upto_append_next:
  assumes "a \<le> b" and "[a..l] = [a..b] @ x # r"
  shows "x = b + 1"
proof -
  let ?k = "length [a..b]"
  have k: "?k = nat (b - a + 1)" by simp
  have "?k < length [a..l]" using assms(2) by simp
  then have "a + int ?k \<le> l" by simp
  then have "[a..l] ! ?k = a + int ?k" by (rule nth_upto)
  moreover have "[a..l] ! ?k = x" using assms(2) by (simp add: nth_append)
  ultimately show ?thesis using assms(1) k by simp
qed

lemma consecutive_run_next:
  assumes "a \<le> b" and "consecutive_run ([a..b] @ x # r)"
  shows "x = b + 1"
proof -
  have "hd ([a..b] @ x # r) = a" using assms(1) by (simp add: upto_rec1)
  with assms(2) have "[a..last (x # r)] = [a..b] @ x # r"
    by (simp add: consecutive_run_def)
  with assms(1) show ?thesis by (rule upto_append_next)
qed

text \<open>A maximal decomposition into runs is the one \<open>split_runs\<close> computes.\<close>

lemma split_runs_unique:
  "a \<le> b \<Longrightarrow> list_all consecutive_run (([a..b] @ r) # rest) \<Longrightarrow>
   maximal_runs (([a..b] @ r) # rest) \<Longrightarrow> xs = r @ concat rest \<Longrightarrow>
   split_runs a b xs = ([a..b] @ r) # rest"
proof (induction xs arbitrary: a b r rest)
  case Nil
  then have "r = []" and "concat rest = []" by simp_all
  moreover from Nil.prems(2) have "list_all (\<lambda>s. s \<noteq> []) rest"
    by (simp add: consecutive_run_def list_all_iff)
  ultimately have "rest = []" by (cases rest) simp_all
  with \<open>r = []\<close> show ?case by simp
next
  case (Cons x xs)
  show ?case
  proof (cases r)
    case Nil
    with Cons.prems(4) obtain s rest' where rest: "rest = s # rest'"
      by (cases rest) auto
    with Cons.prems(2) have s: "consecutive_run s" and tail: "list_all consecutive_run rest'"
      by simp_all
    from s have "s \<noteq> []" by (simp add: consecutive_run_def)
    then obtain s' where s': "s = x # s'"
      using Cons.prems(4) Nil rest by (cases s) auto
    from Cons.prems(3) Nil rest s' Cons.prems(1) have neq: "x \<noteq> b + 1"
      by (simp add: last_upto)
    have "split_runs x x xs = ([x..x] @ s') # rest'"
    proof (rule Cons.IH)
      show "x \<le> x" by simp
      show "list_all consecutive_run (([x..x] @ s') # rest')" using s s' tail by simp
      show "maximal_runs (([x..x] @ s') # rest')" using Cons.prems(3) Nil rest s' by simp
      show "xs = s' @ concat rest'" using Cons.prems(4) Nil rest s' by simp
    qed
    with neq Nil rest s' show ?thesis by simp
  next
    case (Cons y r')
    with Cons.prems(4) have y: "y = x" by simp
    from Cons.prems(2) Cons y have "consecutive_run ([a..b] @ x # r')" by simp
    with Cons.prems(1) have x: "x = b + 1" by (rule consecutive_run_next)
    with Cons.prems(1) have ext: "[a..x] = [a..b] @ [x]" by (simp add: upto_rec2)
    have "split_runs a x xs = ([a..x] @ r') # rest"
    proof (rule Cons.IH)
      show "a \<le> x" using x Cons.prems(1) by simp
      show "list_all consecutive_run (([a..x] @ r') # rest)" using Cons.prems(2) Cons y ext by simp
      show "maximal_runs (([a..x] @ r') # rest)" using Cons.prems(3) Cons y ext by simp
      show "xs = r' @ concat rest" using Cons.prems(4) Cons by simp
    qed
    with x Cons y ext show ?thesis by simp
  qed
qed

lemma run_decomposition_unique:
  assumes "run_decomposition (x # xs) rs"
  shows "rs = split_runs x x xs"
proof -
  from assms obtain r rest where rs: "rs = r # rest"
    by (cases rs) (auto simp: run_decomposition_def)
  with assms have r: "consecutive_run r" by (simp add: run_decomposition_def)
  then have "r \<noteq> []" by (simp add: consecutive_run_def)
  moreover from assms rs have "concat (r # rest) = x # xs" by (simp add: run_decomposition_def)
  ultimately obtain r' where r': "r = x # r'"
    by (cases r) auto
  have "split_runs x x xs = ([x..x] @ r') # rest"
  proof (rule split_runs_unique)
    show "x \<le> x" by simp
    show "list_all consecutive_run (([x..x] @ r') # rest)"
      using assms rs r' by (simp add: run_decomposition_def)
    show "maximal_runs (([x..x] @ r') # rest)"
      using assms rs r' by (simp add: run_decomposition_def)
    show "xs = r' @ concat rest"
      using assms rs r' by (simp add: run_decomposition_def)
  qed
  with rs r' show ?thesis by simp
qed

lemma run_decomposition_split_runs: "run_decomposition (x # xs) (split_runs x x xs)"
  unfolding run_decomposition_def
  using concat_split_runs [of x x xs] split_runs_all_consecutive [of x x xs]
    split_runs_maximal [of x x xs]
  by simp

text \<open>
  C10. \<^verbatim>\<open>formatItemNumbers\<close> maps the empty list to \<open>-\<close> and a list of one number to that
  number's decimal text. Every longer list has exactly one decomposition into maximal runs
  of consecutive ascending numbers, whose concatenation is the list itself (every element
  once, in input order); the result is the parenthesised list of the texts of these runs,
  joined by a comma and a blank, where a run from \<open>a\<close> to \<open>b\<close> with \<open>a < b\<close> reads \<open>a-b\<close> and an
  isolated number reads as itself.
\<close>

theorem formatItemNumbers_run_length_form:
  "formatItemNumbers [] = ''-'' \<and>
   formatItemNumbers [n] = toString n \<and>
   (2 \<le> length items \<longrightarrow>
      (\<exists>rs. run_decomposition items rs \<and>
            (\<forall>rs'. run_decomposition items rs' \<longrightarrow> rs' = rs) \<and>
            formatItemNumbers items = ''('' @ join '', '' (map run_text rs) @ '')''))"
proof (intro conjI impI)
  assume "2 \<le> length items"
  then obtain x y ys where items: "items = x # y # ys"
    by (cases items; cases "tl items") auto
  let ?rs = "split_runs x x (y # ys)"
  have "run_decomposition items ?rs"
    using run_decomposition_split_runs [of x "y # ys"] items by simp
  moreover have "\<forall>rs'. run_decomposition items rs' \<longrightarrow> rs' = ?rs"
    using run_decomposition_unique [of x "y # ys"] items by simp
  moreover have "formatItemNumbers items = ''('' @ join '', '' (map run_text ?rs) @ '')''"
    using group_loop_split_runs [of x x "[]" "y # ys"] items by simp
  ultimately show "\<exists>rs. run_decomposition items rs \<and>
            (\<forall>rs'. run_decomposition items rs' \<longrightarrow> rs' = rs) \<and>
            formatItemNumbers items = ''('' @ join '', '' (map run_text rs) @ '')''"
    by blast
qed simp_all

text \<open>
  The list \<open>1, 2, 3, 5, 7, 8\<close> has the runs \<open>1..3\<close>, \<open>5\<close> and \<open>7..8\<close> and is shown as
  \<open>(1-3, 5, 7-8)\<close>.
\<close>

theorem formatItemNumbers_run_length_form_witness:
  "2 \<le> length [1, 2, 3, 5, 7, 8 :: int] \<and>
   run_decomposition [1, 2, 3, 5, 7, 8] [[1, 2, 3], [5], [7, 8]] \<and>
   formatItemNumbers [1, 2, 3, 5, 7, 8] = ''(1-3, 5, 7-8)''"
proof -
  have len: "2 \<le> length [1, 2, 3, 5, 7, 8 :: int]" by simp
  have "[1..3] = [1, 2, 3 :: int]" and "[7..8] = [7, 8 :: int]"
    by (simp_all add: upto_rec1)
  then have dec: "run_decomposition [1, 2, 3, 5, 7, 8] [[1, 2, 3], [5], [7, 8]]"
    by (simp add: run_decomposition_def consecutive_run_def)
  from formatItemNumbers_run_length_form [of 0 "[1, 2, 3, 5, 7, 8]"] len
  obtain rs where
    only: "\<forall>rs'. run_decomposition [1, 2, 3, 5, 7, 8] rs' \<longrightarrow> rs' = rs" and
    shown: "formatItemNumbers [1, 2, 3, 5, 7, 8] = ''('' @ join '', '' (map run_text rs) @ '')''"
    by blast
  from only dec have "rs = [[1, 2, 3], [5], [7, 8]]" by simp
  with shown have "formatItemNumbers [1, 2, 3, 5, 7, 8] = ''(1-3, 5, 7-8)''"
    by (simp add: run_text_def toString_def nat_toString.simps digit_char_def)
  with len dec show ?thesis by simp
qed


section \<open>Properties of the matrix totals\<close>

lemma foldl_add_sum_list:
  "foldl (\<lambda>sum x. sum + g x) a xs = a + sum_list (map g xs)"
  for a :: "'a::comm_monoid_add"
  by (induction xs arbitrary: a) (simp_all add: add.assoc)

lemma bloomTotals_values:
  "map snd (bloomTotals data) =
     map (\<lambda>level. sum_list (map (\<lambda>topic. length (cell topic level)) (map snd (distribution data))))
       bloomLevels"
  by (simp add: bloomTotals_def foldl_add_sum_list comp_def)

text \<open>Summing by level and then by topic, or by topic and then by level, counts the same cells.\<close>

lemma sum_rows_by_level:
  "sum_list (map (\<lambda>level. sum_list (map (\<lambda>topic. length (cell topic level)) rows)) bloomLevels)
     = sum_list (map (\<lambda>topic. length (concat (map (cell topic) bloomLevels))) rows)"
  by (induction rows) (simp_all add: bloomLevels_def)

lemma grandTotal_length: "grandTotal data = length (all_item_numbers data)"
proof -
  have "grandTotal data = sum_list (map snd (bloomTotals data))"
    using foldl_add_sum_list [of "\<lambda>count. count" 0 "map snd (bloomTotals data)"]
    by (simp add: grandTotal_def)
  also have "\<dots> = sum_list (map (\<lambda>topic. length (concat (map (cell topic) bloomLevels)))
                        (map snd (distribution data)))"
    by (simp only: bloomTotals_values sum_rows_by_level)
  also have "\<dots> = length (all_item_numbers data)"
    by (simp add: all_item_numbers_def length_concat comp_def case_prod_unfold)
  finally show ?thesis .
qed

lemma example_tos_valid: "valid_tos example_tos"
proof -
  have "{1..5::int} = set [1..5]" by (simp only: set_upto)
  also have "\<dots> = {1, 2, 3, 4, 5}" by (simp add: upto_rec1)
  finally show ?thesis
    by (simp add: valid_tos_def example_tos_def all_item_numbers_def bloomLevels_def)
qed

text \<open>
  C8. For every valid TOS configuration, that is, one whose item numbers over all topics and
  all six Bloom levels are exactly \<open>1..totalItems\<close> with none repeated, the grand total that
  the matrix component computes (the sum of the six level totals, each the sum over the
  topics of the number of item numbers in the cell) equals the configured number of items.
\<close>

theorem grandTotal_equals_totalItems:
  assumes "valid_tos data"
  shows "grandTotal data = totalItems data"
proof -
  from assms have "distinct (all_item_numbers data)"
    and items: "set (all_item_numbers data) = {1..int (totalItems data)}"
    by (simp_all add: valid_tos_def)
  then have "length (all_item_numbers data) = card {1..int (totalItems data)}"
    by (simp add: distinct_card [symmetric])
  then show ?thesis by (simp add: grandTotal_length)
qed

text \<open>Two topics sharing the items \<open>1..5\<close>: the grand total is five.\<close>

theorem grandTotal_equals_totalItems_witness:
  "valid_tos example_tos \<and> grandTotal example_tos = 5"
  using grandTotal_equals_totalItems [OF example_tos_valid] example_tos_valid
  by (simp add: example_tos_def)


section \<open>Properties of the test preview page\<close>

lemma totalPoints_points_or_one:
  "totalPoints items = sum_list (map points_or_one items)"
  using foldl_add_sum_list [of points_or_one 0 items]
  by (simp add: totalPoints_def)

text \<open>
  C7, amended. For every test none of whose items carries the points value zero, the total
  that the preview page shows is the sum, over the items of the test, of the item's points,
  where an item without a \<^verbatim>\<open>points\<close> field counts as one point.
\<close>

theorem totalPoints_sum_default_one:
  assumes "\<forall>item \<in> set items. points item \<noteq> Some 0"
  shows "totalPoints items =
           sum_list (map (\<lambda>item. case points item of None \<Rightarrow> 1 | Some p \<Rightarrow> p) items)"
proof -
  have "map points_or_one items =
          map (\<lambda>item. case points item of None \<Rightarrow> 1 | Some p \<Rightarrow> p) items"
  proof (rule map_cong)
    fix item
    assume "item \<in> set items"
    with assms have "points item \<noteq> Some 0" by blast
    then show "points_or_one item = (case points item of None \<Rightarrow> 1 | Some p \<Rightarrow> p)"
      by (simp add: points_or_one_def split: option.split)
  qed simp
  then show ?thesis by (simp only: totalPoints_points_or_one)
qed

text \<open>An item without points, one of two points and one of five: the page shows eight.\<close>

theorem totalPoints_sum_default_one_witness:
  "list_all (\<lambda>item. points item \<noteq> Some 0)
     [\<lparr>points = None\<rparr>, \<lparr>points = Some 2\<rparr>, \<lparr>points = Some 5\<rparr>] \<and>
   totalPoints [\<lparr>points = None\<rparr>, \<lparr>points = Some 2\<rparr>, \<lparr>points = Some 5\<rparr>] = 8"
  using totalPoints_sum_default_one
          [of "[\<lparr>points = None\<rparr>, \<lparr>points = Some 2\<rparr>, \<lparr>points = Some 5\<rparr>]"]
  by simp

text \<open>
  C7 as stated fails where an item has no \<^verbatim>\<open>points\<close> field: of the two items below only one
  carries points, namely 2, so the points of the items sum to 2, and the page shows 3.
\<close>

theorem totalPoints_counterexample:
  "totalPoints [\<lparr>points = None\<rparr>, \<lparr>points = Some 2\<rparr>] = 3 \<and>
   sum_list (List.map_filter points [\<lparr>points = None\<rparr>, \<lparr>points = Some 2\<rparr>]) = 2"
  by (simp add: totalPoints_def points_or_one_def List.map_filter_simps)

text \<open>
  C6, amended. For every state of the page, the click handler of the print button hides the
  answer key; the print job that follows holds what the page shows without the answer key;
  no rendering of the page, with the toggle on or off, puts the answer key on paper; and
  after printing the answer key is shown, whatever the toggle was before the call.
\<close>

theorem handlePrint_hides_then_shows:
  "showAnswerKey (handlePrint_click st) = False \<and>
   print_jobs (handlePrint st) = print_jobs st @ [printed_content False] \<and>
   AnswerKey \<notin> set (printed_content showKey) \<and>
   showAnswerKey (handlePrint st) = True"
  by (cases showKey)
    (simp_all add: handlePrint_def handlePrint_click_def handlePrint_timeout_def
      setShowAnswerKey_def window_print_def printed_content_def render_def)

text \<open>
  C6 as stated fails where the answer key was hidden before the call: printing leaves it
  shown, not hidden.
\<close>

theorem handlePrint_counterexample:
  "showAnswerKey \<lparr>showAnswerKey = False, print_jobs = []\<rparr> = False \<and>
   showAnswerKey (handlePrint \<lparr>showAnswerKey = False, print_jobs = []\<rparr>) = True"
  by (simp add: handlePrint_def handlePrint_click_def handlePrint_timeout_def
      setShowAnswerKey_def window_print_def)


section \<open>Properties of the validation workflow\<close>

lemma questions_complete_requests [simp]:
  "questions (complete_requests questionId uid db) = questions db"
  by (simp add: complete_requests_def)

lemma validations_complete_requests [simp]:
  "classification_validations (complete_requests questionId uid db) =
     classification_validations db"
  by (simp add: complete_requests_def)

lemma questions_insert_validation [simp]:
  "questions (insert_validation row db) = questions db"
  by (simp add: insert_validation_def)

lemma requests_insert_validation [simp]:
  "review_requests (insert_validation row db) = review_requests db"
  by (simp add: insert_validation_def)

lemma validations_insert_validation [simp]:
  "classification_validations (insert_validation row db) =
     classification_validations db @ [row]"
  by (simp add: insert_validation_def)

lemma validations_update_question [simp]:
  "classification_validations (update_question questionId change db) =
     classification_validations db"
  by (simp add: update_question_def split: option.split)

lemma requests_update_question [simp]:
  "review_requests (update_question questionId change db) = review_requests db"
  by (simp add: update_question_def split: option.split)

lemma questions_update_question:
  "questions (update_question questionId change db) =
     (case questions db questionId of
        None \<Rightarrow> questions db
      | Some q \<Rightarrow> (questions db)(questionId \<mapsto> change q))"
  by (simp add: update_question_def split: option.split)

text \<open>With nobody signed in, the call throws before it reads or writes a table.\<close>

lemma submitValidation_no_user:
  "submitValidation None now questionId validationResult db = Inl UserNotAuthenticated"
  by (simp add: submitValidation_def)

lemma example_store_has_question: "questions example_store ''q1'' = Some example_question"
  by (simp add: example_store_def)

text \<open>
  C1, amended. When a user is signed in and the row of the question exists,
  \<^verbatim>\<open>submitValidation\<close> returns normally; it appends one validation record whose original
  classification is the question's bloom level, knowledge dimension, difficulty and
  confidence as stored before the call and whose validated classification is the submitted
  one; and afterwards the question's stored bloom level, knowledge dimension and difficulty
  are the submitted ones, its confidence is the submitted validation confidence and its
  status is validated.
\<close>

theorem submitValidation_records_and_updates:
  assumes "user = Some uid" and "questions db questionId = Some question"
  shows "\<exists>db' question'.
           submitValidation user now questionId validationResult db = Inr db' \<and>
           classification_validations db' =
             classification_validations db @
               [\<lparr>val_question_id = questionId,
                 original_classification =
                   Some \<lparr>bloom_level = q_bloom_level question,
                         knowledge_dimension = q_knowledge_dimension question,
                         difficulty = q_difficulty question,
                         confidence = classification_confidence question\<rparr>,
                 val_validated_classification =
                   Some (res_validated_classification validationResult),
                 validator_id = uid,
                 validation_confidence = res_validation_confidence validationResult,
                 val_notes = res_notes validationResult\<rparr>] \<and>
           questions db' questionId = Some question' \<and>
           q_bloom_level question' =
             vc_bloom_level (res_validated_classification validationResult) \<and>
           q_knowledge_dimension question' =
             vc_knowledge_dimension (res_validated_classification validationResult) \<and>
           q_difficulty question' =
             vc_difficulty (res_validated_classification validationResult) \<and>
           classification_confidence question' = res_validation_confidence validationResult \<and>
           validation_status question' = ''validated''"
  using assms
  by (simp add: submitValidation_def Let_def original_of_def questions_update_question)

text \<open>Alice validates question \<open>q1\<close> of the example store.\<close>

theorem submitValidation_records_and_updates_witness:
  "questions example_store ''q1'' = Some example_question \<and>
   (\<exists>db' question'.
      submitValidation (Some ''alice'') ''2025-01-27T08:00:00.000Z'' ''q1'' example_result
        example_store = Inr db' \<and>
      map original_classification (classification_validations db') =
        [Some \<lparr>bloom_level = ''remembering'', knowledge_dimension = ''factual'',
               difficulty = ''easy'', confidence = 0.55\<rparr>] \<and>
      questions db' ''q1'' = Some question' \<and>
      q_bloom_level question' = ''understanding'' \<and>
      q_knowledge_dimension question' = ''conceptual'' \<and>
      q_difficulty question' = ''average'' \<and>
      classification_confidence question' = 0.9)"
proof -
  note q = example_store_has_question
  from submitValidation_records_and_updates
         [where user = "Some ''alice''" and uid = "''alice''"
            and now = "''2025-01-27T08:00:00.000Z''" and validationResult = example_result,
          OF refl q]
  show ?thesis
    using q by (auto simp: example_store_def example_question_def example_result_def)
qed

text \<open>
  C1 as stated fails when nobody is signed in: the question exists, and the call throws
  before it reads or writes any table.
\<close>

theorem submitValidation_counterexample:
  "questions example_store ''q1'' = Some example_question \<and>
   submitValidation None ''2025-01-27T08:00:00.000Z'' ''q1'' example_result example_store
     = Inl UserNotAuthenticated"
  by (simp add: submitValidation_def example_store_def)

lemma requests_submitValidation:
  assumes "submitValidation (Some uid) now questionId validationResult db = Inr db'"
  shows "review_requests db' =
           map (\<lambda>r. if rr_question_id r = questionId \<and> assigned_to r = Some uid
                     then r\<lparr>rr_status := Completed\<rparr> else r)
               (review_requests db)"
  using assms
  by (auto simp: submitValidation_def Let_def complete_requests_def split: option.splits)

text \<open>
  C9, amended. After \<^verbatim>\<open>submitValidation\<close> has completed, a user was signed in, and every review
  request for the question that is assigned to that user and was pending before the call is
  completed; a request assigned to anybody else, or to nobody, is as it was before.
\<close>

theorem submitValidation_completes_own_requests:
  assumes "submitValidation user now questionId validationResult db = Inr db'"
  shows "\<exists>uid. user = Some uid \<and>
           length (review_requests db') = length (review_requests db) \<and>
           (\<forall>i < length (review_requests db).
              (rr_question_id (review_requests db ! i) = questionId \<and>
               assigned_to (review_requests db ! i) = Some uid \<and>
               rr_status (review_requests db ! i) = Pending
                 \<longrightarrow> review_requests db' ! i = (review_requests db ! i)\<lparr>rr_status := Completed\<rparr>) \<and>
              (assigned_to (review_requests db ! i) \<noteq> Some uid
                 \<longrightarrow> review_requests db' ! i = review_requests db ! i))"
proof -
  from assms obtain uid where user: "user = Some uid"
    by (cases user) (simp_all add: submitValidation_def)
  with assms have "review_requests db' =
           map (\<lambda>r. if rr_question_id r = questionId \<and> assigned_to r = Some uid
                     then r\<lparr>rr_status := Completed\<rparr> else r)
               (review_requests db)"
    by (simp add: requests_submitValidation)
  with user show ?thesis by simp
qed

text \<open>
  Alice validates \<open>q1\<close>: her pending request is completed, Bob's stays as it was.
\<close>

theorem submitValidation_completes_own_requests_witness:
  "\<exists>db'. submitValidation (Some ''alice'') ''2025-01-27T08:00:00.000Z'' ''q1'' example_result
            example_store = Inr db' \<and>
         rr_status (example_requests ! 0) = Pending \<and>
         rr_status (review_requests db' ! 0) = Completed \<and>
         review_requests db' ! 1 = example_requests ! 1"
proof -
  obtain db' where run:
    "submitValidation (Some ''alice'') ''2025-01-27T08:00:00.000Z'' ''q1'' example_result
       example_store = Inr db'"
    by (simp add: submitValidation_def Let_def example_store_def)
  from submitValidation_completes_own_requests [OF run]
  have "review_requests db' ! 0 = (example_requests ! 0)\<lparr>rr_status := Completed\<rparr>"
    and "review_requests db' ! 1 = example_requests ! 1"
    by (simp_all add: example_store_def example_requests_def)
  with run show ?thesis by (simp add: example_requests_def)
qed

text \<open>
  C9 as stated fails for a request assigned to somebody else: both requests of the
  example store are pending and are for \<open>q1\<close>; after Alice's validation the one assigned to
  Bob is still pending.
\<close>

theorem submitValidation_completes_own_requests_counterexample:
  "map rr_status (review_requests example_store) = [Pending, Pending] \<and>
   map rr_question_id (review_requests example_store) = [''q1'', ''q1''] \<and>
   map assigned_to (review_requests example_store) = [Some ''alice'', Some ''bob''] \<and>
   map_sum id (\<lambda>db'. map rr_status (review_requests db'))
     (submitValidation (Some ''alice'') ''2025-01-27T08:00:00.000Z'' ''q1'' example_result
        example_store)
     = Inr [Completed, Pending]"
  by (simp add: submitValidation_def Let_def complete_requests_def example_store_def
      example_requests_def)

text \<open>
  C3, amended. When a user is signed in and the row of the question exists,
  \<^verbatim>\<open>rejectValidation\<close> sets the question's validation status to rejected and its
  \<^verbatim>\<open>needs_review\<close> flag to true, and records the user and the time of the call. A second call
  with the same arguments by the same user leaves the table of questions as the first call
  left it, but for the validation timestamp of the question, which becomes the time of the
  second call.
\<close>

theorem rejectValidation_rejects_and_flags:
  assumes "user = Some uid" and "questions db questionId = Some question"
  shows "\<exists>db1 q1 db2.
           rejectValidation user now questionId reason db = Inr db1 \<and>
           questions db1 questionId = Some q1 \<and>
           validation_status q1 = ''rejected'' \<and> needs_review q1 \<and>
           validated_by q1 = Some uid \<and> validation_timestamp q1 = Some now \<and>
           rejectValidation user now' questionId reason db1 = Inr db2 \<and>
           questions db2 =
             (questions db1)(questionId \<mapsto> q1\<lparr>validation_timestamp := Some now'\<rparr>)"
  using assms
  by (cases question) (simp add: rejectValidation_def Let_def questions_update_question)

text \<open>Alice rejects \<open>q1\<close> of the example store, and rejects it again ninety minutes later.\<close>

theorem rejectValidation_rejects_and_flags_witness:
  "questions example_store ''q1'' = Some example_question \<and>
   (\<exists>db1 q1 db2.
      rejectValidation (Some ''alice'') ''2025-01-27T08:00:00.000Z'' ''q1'' ''off topic''
        example_store = Inr db1 \<and>
      questions db1 ''q1'' = Some q1 \<and>
      validation_status q1 = ''rejected'' \<and> needs_review q1 \<and>
      rejectValidation (Some ''alice'') ''2025-01-27T09:30:00.000Z'' ''q1'' ''off topic'' db1
        = Inr db2 \<and>
      map_option validation_status (questions db2 ''q1'') = Some ''rejected'' \<and>
      map_option needs_review (questions db2 ''q1'') = Some True)"
proof -
  note q = example_store_has_question
  from rejectValidation_rejects_and_flags
         [where user = "Some ''alice''" and uid = "''alice''"
            and now = "''2025-01-27T08:00:00.000Z''" and now' = "''2025-01-27T09:30:00.000Z''"
            and reason = "''off topic''",
          OF refl q]
  obtain db1 q1 db2 where
    "rejectValidation (Some ''alice'') ''2025-01-27T08:00:00.000Z'' ''q1'' ''off topic''
        example_store = Inr db1"
    "questions db1 ''q1'' = Some q1" "validation_status q1 = ''rejected''" "needs_review q1"
    "rejectValidation (Some ''alice'') ''2025-01-27T09:30:00.000Z'' ''q1'' ''off topic'' db1
        = Inr db2"
    "questions db2 =
       (questions db1)(''q1'' \<mapsto> q1\<lparr>validation_timestamp := Some ''2025-01-27T09:30:00.000Z''\<rparr>)"
    by blast
  with q show ?thesis by simp
qed

text \<open>
  C3 as stated fails in two ways. When nobody is signed in the call throws and sets nothing.
  And the question record after two calls differs from the record after one: its validation
  timestamp is the time of the second call.
\<close>

theorem rejectValidation_counterexample:
  "rejectValidation None ''2025-01-27T08:00:00.000Z'' ''q1'' ''off topic'' example_store
     = Inl UserNotAuthenticated \<and>
   map_option validation_timestamp
     (questions
        (projr (rejectValidation (Some ''alice'') ''2025-01-27T08:00:00.000Z'' ''q1''
                  ''off topic'' example_store)) ''q1'')
     = Some (Some ''2025-01-27T08:00:00.000Z'') \<and>
   map_option validation_timestamp
     (questions
        (projr (rejectValidation (Some ''alice'') ''2025-01-27T09:30:00.000Z'' ''q1''
                  ''off topic''
                  (projr (rejectValidation (Some ''alice'') ''2025-01-27T08:00:00.000Z'' ''q1''
                            ''off topic'' example_store)))) ''q1'')
     = Some (Some ''2025-01-27T09:30:00.000Z'')"
  by (simp add: rejectValidation_def Let_def questions_update_question example_store_def)


section \<open>Properties of the enhanced classification hook\<close>

lemma quality_assessment_nonempty:
  "ml_confidence c < 0.7 \<or> quality_score c < qualityThreshold
     \<Longrightarrow> quality_assessment qualityThreshold c \<noteq> []"
  by (auto simp: quality_assessment_def)

text \<open>
  C2. Whenever \<^verbatim>\<open>classifyQuestion\<close> produces a classification result (the classifier returns
  one, and the similarity search, if enabled, does not throw) whose confidence is below 0.7
  or whose quality score is below the quality threshold in force, the state it leaves holds
  that result, the validation status \<^verbatim>\<open>'needs_review'\<close> and a non-empty list of quality
  issues.
\<close>

theorem classifyQuestion_flags_for_review:
  assumes "classifier questionInput = Inr classification"
    and "\<not> checkSimilarity \<or>
         (\<exists>sims. findSimilar (input_text questionInput) similarityThreshold = Inr sims)"
    and "ml_confidence classification < 0.7 \<or> quality_score classification < qualityThreshold"
  shows "cs_result (classifyQuestion checkSimilarity similarityThreshold qualityThreshold
                     classifier findSimilar question_text_of questionInput st)
           = Some classification \<and>
         validationStatus (classifyQuestion checkSimilarity similarityThreshold qualityThreshold
                     classifier findSimilar question_text_of questionInput st)
           = St_needs_review \<and>
         qualityIssues (classifyQuestion checkSimilarity similarityThreshold qualityThreshold
                     classifier findSimilar question_text_of questionInput st) \<noteq> []"
proof -
  from assms(2) have "\<exists>similar. similarity_check checkSimilarity similarityThreshold findSimilar
            question_text_of questionInput = Inr similar"
    by (auto simp: similarity_check_def)
  then obtain similar where
    sim: "similarity_check checkSimilarity similarityThreshold findSimilar question_text_of
            questionInput = Inr similar" ..
  from assms(3) have "quality_assessment qualityThreshold classification \<noteq> []"
    by (rule quality_assessment_nonempty)
  with assms(1) sim show ?thesis
    by (simp add: classifyQuestion_def Let_def)
qed

text \<open>
  With the default thresholds, a result of confidence 0.65 and quality score 0.8 is flagged.
\<close>

theorem classifyQuestion_flags_for_review_witness:
  "ml_confidence low_confidence_result < 0.7 \<and>
   validationStatus
     (classifyQuestion True default_similarityThreshold default_qualityThreshold
        (\<lambda>q. Inr low_confidence_result) (\<lambda>t threshold. Inr []) (\<lambda>i. None)
        example_input initial_classification_state) = St_needs_review \<and>
   qualityIssues
     (classifyQuestion True default_similarityThreshold default_qualityThreshold
        (\<lambda>q. Inr low_confidence_result) (\<lambda>t threshold. Inr []) (\<lambda>i. None)
        example_input initial_classification_state) \<noteq> []"
proof -
  have low: "ml_confidence low_confidence_result < 0.7"
    by (simp add: low_confidence_result_def)
  then have "ml_confidence low_confidence_result < 0.7 \<or>
             quality_score low_confidence_result < default_qualityThreshold" ..
  from classifyQuestion_flags_for_review
         [where classifier = "\<lambda>q. Inr low_confidence_result"
            and findSimilar = "\<lambda>t threshold. Inr []" and checkSimilarity = True,
          OF refl _ this]
  show ?thesis using low by simp
qed




section \<open>Properties of the semantic analysis hook\<close>

text \<open>
  The loops keep, of all pairs, those whose similarity reaches the threshold, and count them.
\<close>

lemma inner_loop_pairs:
  "inner_loop sim t qi rest acc =
     (case inner_pairs sim qi rest of
        Inl e \<Rightarrow> Inl e
      | Inr ps \<Rightarrow> Inr (fst acc @ filter (\<lambda>p. t \<le> pair_similarity p) ps,
                     snd acc + length (filter (\<lambda>p. t \<le> pair_similarity p) ps)))"
  by (induction rest arbitrary: acc) (auto split: sum.splits)

lemma outer_loop_pairs:
  "outer_loop sim t qs acc =
     (case all_pairs sim qs of
        Inl e \<Rightarrow> Inl e
      | Inr ps \<Rightarrow> Inr (fst acc @ filter (\<lambda>p. t \<le> pair_similarity p) ps,
                     snd acc + length (filter (\<lambda>p. t \<le> pair_similarity p) ps)))"
  by (induction qs arbitrary: acc) (auto simp: inner_loop_pairs split: sum.splits)

lemma redundancyReport_clusterQuestions:
  "redundancyReport (snd (clusterQuestions enabled service qs st)) = redundancyReport st"
  by (simp add: clusterQuestions_def Let_def split: sum.split)

lemma flagged_pairs_analyzeQuestionBank:
  "flagged_pairs (analyzeQuestionBank t enabled service sim qs st) =
     (case all_pairs sim qs of
        Inl e \<Rightarrow> flagged_pairs st
      | Inr ps \<Rightarrow> {p \<in> set ps. t \<le> pair_similarity p})"
  using redundancyReport_clusterQuestions
          [of enabled service qs "st\<lparr>sa_loading := True, sa_error := None\<rparr>"]
  by (auto simp: analyzeQuestionBank_def Let_def flagged_pairs_def outer_loop_pairs
      split: sum.splits prod.splits)

lemma example_all_pairs:
  "all_pairs example_similarity example_bank =
     Inr [\<lparr>id1 = ''q1'', id2 = ''q2'', pair_similarity = 0.9\<rparr>,
          \<lparr>id1 = ''q1'', id2 = ''q3'', pair_similarity = 0.6\<rparr>,
          \<lparr>id1 = ''q2'', id2 = ''q3'', pair_similarity = 0.6\<rparr>]"
  by (simp add: example_bank_def example_similarity_def)

text \<open>
  C4. For a fixed list of questions, a fixed similarity function and a fixed state before
  the call, and for thresholds \<open>t1 \<le> t2\<close>, the pairs flagged in the report after
  \<^verbatim>\<open>analyzeQuestionBank\<close> at threshold \<open>t2\<close> are among the pairs flagged after it at threshold
  \<open>t1\<close>. (A similarity computation that throws does so at either threshold and leaves the
  earlier report in place.)
\<close>

theorem analyzeQuestionBank_threshold_monotonic:
  assumes "t1 \<le> t2"
  shows "flagged_pairs (analyzeQuestionBank t2 clusteringEnabled cluster_service
                          calculateSimilarity qs st)
         \<subseteq> flagged_pairs (analyzeQuestionBank t1 clusteringEnabled cluster_service
                          calculateSimilarity qs st)"
  using assms
  by (auto simp: flagged_pairs_analyzeQuestionBank split: sum.splits)

text \<open>
  Three questions with the similarities 0.9, 0.6 and 0.6: the threshold 0.8 flags one pair,
  the threshold 0.5 flags all three.
\<close>

theorem analyzeQuestionBank_threshold_monotonic_witness:
  "(0.5 :: real) \<le> 0.8 \<and>
   flagged_pairs (analyzeQuestionBank 0.8 False (\<lambda>qs. Inr []) example_similarity example_bank
                    initial_analysis_state)
     = {\<lparr>id1 = ''q1'', id2 = ''q2'', pair_similarity = 0.9\<rparr>} \<and>
   flagged_pairs (analyzeQuestionBank 0.8 False (\<lambda>qs. Inr []) example_similarity example_bank
                    initial_analysis_state)
     \<subseteq> flagged_pairs (analyzeQuestionBank 0.5 False (\<lambda>qs. Inr []) example_similarity
                         example_bank initial_analysis_state)"
proof -
  have le: "(0.5 :: real) \<le> 0.8" by simp
  have "flagged_pairs (analyzeQuestionBank 0.8 False (\<lambda>qs. Inr []) example_similarity
                         example_bank initial_analysis_state)
          = {\<lparr>id1 = ''q1'', id2 = ''q2'', pair_similarity = 0.9\<rparr>}"
    by (auto simp: flagged_pairs_analyzeQuestionBank example_all_pairs)
  with le analyzeQuestionBank_threshold_monotonic
         [OF le, of False "\<lambda>qs. Inr []" example_similarity example_bank initial_analysis_state]
  show ?thesis by simp
qed

end
